theory Spec2Isabelle
  imports Main "HOL-Library.Sublist" "HOL-Library.Word" "HOL-Library.Multiset"
begin

section \<open>Values of the request handlers\<close>

text \<open>
  The server (src/main.ts) is a table of seven POST handlers under /api. Each one parses
  a request body, builds an S3 client with \<open>createS3Client\<close>, sends commands to the
  storage backend and answers with a JSON body; a \<open>try\<close>/\<open>catch\<close> around the whole
  handler turns every thrown error into an error response.

  A thrown JavaScript \<open>Error\<close> is a value carrying its message; the handlers only ever
  read \<open>error.message\<close>.
\<close>

datatype js_error = Error (message: string)

text \<open>
  The fields of a request body are optional strings: \<open>None\<close> is an absent field
  (\<open>undefined\<close>). The source tests them with \<open>!x\<close> and \<open>if (x)\<close>; for a string that is
  being non-empty. Inside a template literal an absent field prints as \<open>undefined\<close>.
\<close>

fun truthy :: "string option \<Rightarrow> bool" where
  "truthy None = False"
| "truthy (Some s) = (s \<noteq> [])"

fun interp :: "string option \<Rightarrow> string" where
  "interp None = ''undefined''"
| "interp (Some s) = s"

type_synonym bytes = "8 word list"

section \<open>The client factory\<close>

record config =
  region :: "string option"
  accessKeyId :: "string option"
  secretAccessKey :: "string option"
  endpoint :: "string option"

record credentials =
  cred_accessKeyId :: "string option"
  cred_secretAccessKey :: "string option"

record clientConfig =
  client_region :: "string option"
  client_credentials :: credentials
  client_endpoint :: "string option"
  forcePathStyle :: "bool option"

datatype s3client = S3Client clientConfig

definition missing_configuration :: string where
  "missing_configuration =
     ''Missing AWS configuration. Region, Access Key, and Secret Key are required.''"

text \<open>
  \<open>createS3Client\<close> (main.ts, lines 28 to 49). The argument is \<open>body.config\<close>, absent
  when the body has no such field. The guard throws; otherwise region and credentials
  are copied, and endpoint and forcePathStyle are set only under \<open>if (config.endpoint)\<close>.
\<close>

definition createS3Client :: "config option \<Rightarrow> js_error + s3client" where
  "createS3Client cfg =
     (case cfg of
        None \<Rightarrow> Inl (Error missing_configuration)
      | Some c \<Rightarrow>
          if \<not> truthy (region c) \<or> \<not> truthy (accessKeyId c) \<or> \<not> truthy (secretAccessKey c)
          then Inl (Error missing_configuration)
          else
            let cc = \<lparr>client_region = region c,
                      client_credentials =
                        \<lparr>cred_accessKeyId = accessKeyId c,
                         cred_secretAccessKey = secretAccessKey c\<rparr>,
                      client_endpoint = None,
                      forcePathStyle = None\<rparr>
            in Inr (S3Client
                 (if truthy (endpoint c)
                  then cc\<lparr>client_endpoint := endpoint c, forcePathStyle := Some True\<rparr>
                  else cc)))"

section \<open>Commands, the backend and responses\<close>

record createBucketConfiguration =
  LocationConstraint :: "string option"

record uploadParams =
  up_Bucket :: "string option"
  up_Key :: string
  up_Body :: bytes
  up_ContentType :: string
  up_ChecksumMode :: string

text \<open>
  The commands the handlers construct, with the parameters they pass. \<open>Upload\<close> stands
  for \<open>new Upload({client, params}).done()\<close> of lib-storage: one upload request to the
  backend as far as the handler is concerned.
\<close>

datatype command =
    ListBucketsCommand
  | ListObjectsV2Command "string option" "string option" string
  | CreateBucketCommand "string option" "createBucketConfiguration option"
  | PutObjectCommand "string option" "string option" string
  | DeleteObjectsCommand "string option" "string option list"
  | DeleteBucketCommand "string option"
  | Upload uploadParams

record objectRef =
  obj_Key :: string
  obj_Size :: nat
  obj_LastModified :: string

record s3output =
  Buckets :: "string list option"
  Contents :: "objectRef list option"
  CommonPrefixes :: "string list option"

text \<open>
  The storage service and the SDK are outside the repository. The backend is a parameter
  of every handler: given the client, the commands this request has already sent and the
  command being sent, it either rejects (the awaited promise throws) or returns an
  output. Each handler returns the commands it sent, in order, next to its response.
\<close>

type_synonym backend = "s3client \<Rightarrow> command list \<Rightarrow> command \<Rightarrow> js_error + s3output"

datatype responseBody =
    Success string
  | ConnectFailure string
  | ErrorBody string
  | BucketList "string list"
  | ObjectList "objectRef list" "string list"

record response =
  status :: nat
  body :: responseBody

text \<open>
  \<open>Success m\<close> is \<open>{success: true, message: m}\<close>, \<open>ConnectFailure m\<close> is
  \<open>{success: false, error: m}\<close> and \<open>ErrorBody m\<close> is \<open>{error: m}\<close>. A handler that sets
  a body and no status answers 200. The source has two \<open>catch\<close> blocks: the one of
  /connect (lines 62 to 66) and the one every other handler repeats.
\<close>

definition ok :: "responseBody \<Rightarrow> response" where
  "ok b = \<lparr>status = 200, body = b\<rparr>"

definition connect_catch :: "js_error \<Rightarrow> response" where
  "connect_catch e = \<lparr>status = 400, body = ConnectFailure (message e)\<rparr>"

definition error_catch :: "js_error \<Rightarrow> response" where
  "error_catch e = \<lparr>status = 500, body = ErrorBody (message e)\<rparr>"

definition finish ::
  "(js_error \<Rightarrow> response) \<Rightarrow> command list \<times> (js_error + responseBody) \<Rightarrow> command list \<times> response" where
  "finish catch r =
     (case r of
        (calls, Inl e) \<Rightarrow> (calls, catch e)
      | (calls, Inr b) \<Rightarrow> (calls, ok b))"

section \<open>JSON request bodies\<close>

text \<open>
  One entry of \<open>items\<close> in a delete request: \<open>isBucket\<close> is read for its truthiness,
  \<open>Key\<close> names an object and \<open>Name\<close> a bucket.
\<close>

record item =
  isBucket :: bool
  Key :: "string option"
  Name :: "string option"

text \<open>
  The JSON body of a request, with every field a handler reads. The body's own \<open>region\<close>
  (of /buckets/create) and \<open>prefix\<close> are primed: the names are taken by the config's
  field and by the list library. Reading the body can itself throw (malformed JSON), so
  a handler receives \<open>js_error + requestBody\<close>.
\<close>

record requestBody =
  config :: "config option"
  bucket :: "string option"
  prefix' :: "string option"
  bucketName :: "string option"
  region' :: "string option"
  key :: "string option"
  items :: "item list"

section \<open>POST /api/connect, /api/buckets, /api/objects\<close>

text \<open>
  Every handler is split as the source is: the body of the \<open>try\<close> block, which returns
  the response body or the thrown error, and the handler, which adds the \<open>catch\<close>.
\<close>

definition connect_try ::
  "backend \<Rightarrow> js_error + requestBody \<Rightarrow> command list \<times> (js_error + responseBody)" where
  "connect_try send req =
     (case req of
        Inl e \<Rightarrow> ([], Inl e)
      | Inr b \<Rightarrow>
          (case createS3Client (config b) of
             Inl e \<Rightarrow> ([], Inl e)
           | Inr s3Client \<Rightarrow>
               (case send s3Client [] ListBucketsCommand of
                  Inl e \<Rightarrow> ([ListBucketsCommand], Inl e)
                | Inr data \<Rightarrow> ([ListBucketsCommand], Inr (Success ''Connection successful'')))))"

definition connect_handler :: "backend \<Rightarrow> js_error + requestBody \<Rightarrow> command list \<times> response" where
  "connect_handler send req = finish connect_catch (connect_try send req)"

definition list_buckets_try ::
  "backend \<Rightarrow> js_error + requestBody \<Rightarrow> command list \<times> (js_error + responseBody)" where
  "list_buckets_try send req =
     (case req of
        Inl e \<Rightarrow> ([], Inl e)
      | Inr b \<Rightarrow>
          (case createS3Client (config b) of
             Inl e \<Rightarrow> ([], Inl e)
           | Inr s3Client \<Rightarrow>
               (case send s3Client [] ListBucketsCommand of
                  Inl e \<Rightarrow> ([ListBucketsCommand], Inl e)
                | Inr data \<Rightarrow>
                    ([ListBucketsCommand],
                     Inr (BucketList (case Buckets data of None \<Rightarrow> [] | Some bs \<Rightarrow> bs))))))"

definition list_buckets_handler :: "backend \<Rightarrow> js_error + requestBody \<Rightarrow> command list \<times> response" where
  "list_buckets_handler send req = finish error_catch (list_buckets_try send req)"

definition list_objects_try ::
  "backend \<Rightarrow> js_error + requestBody \<Rightarrow> command list \<times> (js_error + responseBody)" where
  "list_objects_try send req =
     (case req of
        Inl e \<Rightarrow> ([], Inl e)
      | Inr b \<Rightarrow>
          (case createS3Client (config b) of
             Inl e \<Rightarrow> ([], Inl e)
           | Inr s3Client \<Rightarrow>
               (let command = ListObjectsV2Command (bucket b) (prefix' b) ''/'' in
                case send s3Client [] command of
                  Inl e \<Rightarrow> ([command], Inl e)
                | Inr data \<Rightarrow>
                    ([command],
                     Inr (ObjectList
                            (case Contents data of None \<Rightarrow> [] | Some cs \<Rightarrow> cs)
                            (case CommonPrefixes data of None \<Rightarrow> [] | Some ps \<Rightarrow> ps))))))"

definition list_objects_handler :: "backend \<Rightarrow> js_error + requestBody \<Rightarrow> command list \<times> response" where
  "list_objects_handler send req = finish error_catch (list_objects_try send req)"

section \<open>POST /api/buckets/create and /api/folders/create\<close>

text \<open>
  Lines 107 to 124. \<open>CreateBucketConfiguration\<close> is
  \<open>region !== 'us-east-1' ? { LocationConstraint: region } : undefined\<close>, on the body's
  region, not the config's.
\<close>

definition create_bucket_command :: "requestBody \<Rightarrow> command" where
  "create_bucket_command b =
     CreateBucketCommand (bucketName b)
       (if region' b \<noteq> Some ''us-east-1''
        then Some \<lparr>LocationConstraint = region' b\<rparr>
        else None)"

definition create_bucket_try ::
  "backend \<Rightarrow> js_error + requestBody \<Rightarrow> command list \<times> (js_error + responseBody)" where
  "create_bucket_try send req =
     (case req of
        Inl e \<Rightarrow> ([], Inl e)
      | Inr b \<Rightarrow>
          (case createS3Client (config b) of
             Inl e \<Rightarrow> ([], Inl e)
           | Inr s3Client \<Rightarrow>
               (let command = create_bucket_command b in
                case send s3Client [] command of
                  Inl e \<Rightarrow> ([command], Inl e)
                | Inr data \<Rightarrow>
                    ([command],
                     Inr (Success (''Bucket '' @ interp (bucketName b) @ '' created.''))))))"

definition create_bucket_handler :: "backend \<Rightarrow> js_error + requestBody \<Rightarrow> command list \<times> response" where
  "create_bucket_handler send req = finish error_catch (create_bucket_try send req)"

definition create_folder_try ::
  "backend \<Rightarrow> js_error + requestBody \<Rightarrow> command list \<times> (js_error + responseBody)" where
  "create_folder_try send req =
     (case req of
        Inl e \<Rightarrow> ([], Inl e)
      | Inr b \<Rightarrow>
          (case createS3Client (config b) of
             Inl e \<Rightarrow> ([], Inl e)
           | Inr s3Client \<Rightarrow>
               (let command = PutObjectCommand (bucket b) (key b) [] in
                case send s3Client [] command of
                  Inl e \<Rightarrow> ([command], Inl e)
                | Inr data \<Rightarrow>
                    ([command],
                     Inr (Success (''Folder '' @ interp (key b) @ '' created.''))))))"

definition create_folder_handler :: "backend \<Rightarrow> js_error + requestBody \<Rightarrow> command list \<times> response" where
  "create_folder_handler send req = finish error_catch (create_folder_try send req)"

section \<open>POST /api/delete\<close>

text \<open>
  Lines 228 to 258. The items are partitioned with two \<open>filter\<close> calls. The object
  phase sends one \<open>DeleteObjectsCommand\<close> when there is an object item, after the check
  of \<open>bucket\<close>; the bucket phase is the \<open>for\<close> loop, one awaited \<open>DeleteBucketCommand\<close>
  per bucket item, left by the first one that throws. \<open>calls\<close> is what has been sent so
  far.
\<close>

definition bucket_required :: string where
  "bucket_required = ''Bucket name is required for deleting objects.''"

definition delete_objects ::
  "backend \<Rightarrow> s3client \<Rightarrow> string option \<Rightarrow> item list \<Rightarrow> command list \<times> (js_error + unit)" where
  "delete_objects send s3Client bkt objectsToDelete =
     (if length objectsToDelete > 0 then
        (if \<not> truthy bkt then ([], Inl (Error bucket_required))
         else
           (let command = DeleteObjectsCommand bkt (map Key objectsToDelete) in
            case send s3Client [] command of
              Inl e \<Rightarrow> ([command], Inl e)
            | Inr data \<Rightarrow> ([command], Inr ())))
      else ([], Inr ()))"

fun delete_buckets ::
  "backend \<Rightarrow> s3client \<Rightarrow> command list \<Rightarrow> item list \<Rightarrow> command list \<times> (js_error + unit)" where
  "delete_buckets send s3Client calls [] = (calls, Inr ())"
| "delete_buckets send s3Client calls (b # bs) =
     (let command = DeleteBucketCommand (Name b) in
      case send s3Client calls command of
        Inl e \<Rightarrow> (calls @ [command], Inl e)
      | Inr data \<Rightarrow> delete_buckets send s3Client (calls @ [command]) bs)"

definition delete_try ::
  "backend \<Rightarrow> js_error + requestBody \<Rightarrow> command list \<times> (js_error + responseBody)" where
  "delete_try send req =
     (case req of
        Inl e \<Rightarrow> ([], Inl e)
      | Inr b \<Rightarrow>
          (case createS3Client (config b) of
             Inl e \<Rightarrow> ([], Inl e)
           | Inr s3Client \<Rightarrow>
               (let objectsToDelete = filter (\<lambda>item. \<not> isBucket item) (items b);
                    bucketsToDelete = filter (\<lambda>item. isBucket item) (items b)
                in case delete_objects send s3Client (bucket b) objectsToDelete of
                     (calls, Inl e) \<Rightarrow> (calls, Inl e)
                   | (calls, Inr u) \<Rightarrow>
                       (case delete_buckets send s3Client calls bucketsToDelete of
                          (calls', Inl e) \<Rightarrow> (calls', Inl e)
                        | (calls', Inr u') \<Rightarrow>
                            (calls', Inr (Success ''Items deleted successfully.''))))))"

definition delete_handler :: "backend \<Rightarrow> js_error + requestBody \<Rightarrow> command list \<times> response" where
  "delete_handler send req = finish error_catch (delete_try send req)"

section \<open>POST /api/upload\<close>

text \<open>
  Lines 147 to 224. A file part as the form-data reader hands it over: its bytes in
  \<open>content\<close> when it was kept in memory, or the path of a temporary file in \<open>filename\<close>.
\<close>

record formDataFile =
  content :: "bytes option"
  filename :: "string option"
  originalName :: string
  contentType :: string

record formData =
  fields_config :: "string option"
  fields_bucket :: "string option"
  fields_path :: "string option"
  files :: "formDataFile list option"

text \<open>
  What the handler calls outside the repository is a parameter: \<open>read\<close> is
  \<open>formDataReader.read\<close>, given its \<open>maxFileSize\<close>; \<open>json_parse\<close> is \<open>JSON.parse\<close> on the
  \<open>config\<close> field; \<open>readFile\<close> is \<open>Deno.readFile\<close>. Each may throw.

  \<open>resolve\<close> is lines 165 to 175: a \<open>Uint8Array\<close> is truthy whatever its length, so a
  present \<open>content\<close> is taken as it is; otherwise a non-empty \<open>filename\<close> is read from
  disk; otherwise \<open>fileData\<close> stays undefined.
\<close>

definition resolve :: "(string \<Rightarrow> js_error + bytes) \<Rightarrow> formDataFile \<Rightarrow> js_error + bytes option" where
  "resolve readFile file =
     (case content file of
        Some c \<Rightarrow> Inr (Some c)
      | None \<Rightarrow>
          (case filename file of
             None \<Rightarrow> Inr None
           | Some fn \<Rightarrow>
               if fn \<noteq> [] then
                 (case readFile fn of Inl e \<Rightarrow> Inl e | Inr d \<Rightarrow> Inr (Some d))
               else Inr None))"

definition upload_command :: "string option \<Rightarrow> string option \<Rightarrow> formDataFile \<Rightarrow> bytes \<Rightarrow> command" where
  "upload_command bkt path file fileData =
     Upload \<lparr>up_Bucket = bkt,
             up_Key = interp path @ originalName file,
             up_Body = fileData,
             up_ContentType = contentType file,
             up_ChecksumMode = ''DISABLED''\<rparr>"

definition upload_failed :: "formDataFile \<Rightarrow> js_error \<Rightarrow> js_error" where
  "upload_failed file uploadError =
     Error (''Failed to upload '' @ originalName file @ '': '' @
            (if message uploadError \<noteq> [] then message uploadError else ''Unknown S3 error''))"

text \<open>
  The callback of \<open>filesToUpload.map\<close> (lines 164 to 212) for one file: how its promise
  settles, and the calls sent once it has run.
\<close>

definition upload_file ::
  "backend \<Rightarrow> (string \<Rightarrow> js_error + bytes) \<Rightarrow> s3client \<Rightarrow> string option \<Rightarrow> string option \<Rightarrow>
   command list \<Rightarrow> formDataFile \<Rightarrow> command list \<times> (js_error + unit)" where
  "upload_file send readFile s3Client bkt path calls file =
     (case resolve readFile file of
        Inl e \<Rightarrow> (calls, Inl e)
      | Inr fileData \<Rightarrow>
          (case fileData of
             None \<Rightarrow> (calls, Inr ())
           | Some d \<Rightarrow>
               if length d = 0 then (calls, Inr ())
               else
                 (let command = upload_command bkt path file d in
                  case send s3Client calls command of
                    Inl uploadError \<Rightarrow> (calls @ [command], Inl (upload_failed file uploadError))
                  | Inr data \<Rightarrow> (calls @ [command], Inr ()))))"

text \<open>
  \<open>filesToUpload.map\<close> starts every callback and \<open>Promise.all\<close> waits for them: they run
  concurrently, none is cancelled when another one throws, and the order in which their
  uploads reach the backend depends on timing. A callback that sends nothing (its read
  fails, or it leaves at line 179) is not seen by the backend and settles on its own.
  \<open>sends\<close> says that a callback gets as far as line 182. Among the callbacks that send,
  \<open>pick\<close> is the timing: given the commands sent so far and the files still waiting, it
  chooses which one sends next. Every order of the uploads is the result of some \<open>pick\<close>.
\<close>

definition sends :: "(string \<Rightarrow> js_error + bytes) \<Rightarrow> formDataFile \<Rightarrow> bool" where
  "sends readFile file =
     (case resolve readFile file of
        Inl e \<Rightarrow> False
      | Inr None \<Rightarrow> False
      | Inr (Some d) \<Rightarrow> length d \<noteq> 0)"

definition others :: "nat \<Rightarrow> 'a list \<Rightarrow> 'a list" where
  "others i xs = take i xs @ drop (Suc i) xs"

function upload_in_turn ::
  "backend \<Rightarrow> (string \<Rightarrow> js_error + bytes) \<Rightarrow> (command list \<Rightarrow> formDataFile list \<Rightarrow> nat) \<Rightarrow>
   s3client \<Rightarrow> string option \<Rightarrow> string option \<Rightarrow>
   command list \<Rightarrow> formDataFile list \<Rightarrow> command list \<times> (js_error + unit) list" where
  "upload_in_turn send readFile pick s3Client bkt path calls [] = (calls, [])"
| "upload_in_turn send readFile pick s3Client bkt path calls (w # ws) =
     (let waiting = w # ws;
          i = pick calls waiting mod length waiting
      in case upload_file send readFile s3Client bkt path calls (waiting ! i) of
           (calls1, r) \<Rightarrow>
             (case upload_in_turn send readFile pick s3Client bkt path calls1 (others i waiting) of
                (calls2, rs) \<Rightarrow> (calls2, r # rs)))"
  by pat_completeness auto
termination
  by (relation "measure (\<lambda>(send, readFile, pick, s3Client, bkt, path, calls, waiting). length waiting)")
     (auto simp: others_def)

definition upload_files ::
  "backend \<Rightarrow> (string \<Rightarrow> js_error + bytes) \<Rightarrow> (command list \<Rightarrow> formDataFile list \<Rightarrow> nat) \<Rightarrow>
   s3client \<Rightarrow> string option \<Rightarrow> string option \<Rightarrow>
   formDataFile list \<Rightarrow> command list \<times> (js_error + unit) list" where
  "upload_files send readFile pick s3Client bkt path fs =
     (case upload_in_turn send readFile pick s3Client bkt path []
             (filter (\<lambda>file. sends readFile file) fs) of
        (calls, rs) \<Rightarrow>
          (calls,
           map (\<lambda>file. snd (upload_file send readFile s3Client bkt path [] file))
             (filter (\<lambda>file. \<not> sends readFile file) fs) @ rs))"

text \<open>
  \<open>Promise.all\<close> resolves when every promise does and rejects with the rejection that
  settles first. Which one that is depends on timing: \<open>race\<close> picks its position among
  the rejections.
\<close>

fun rejections :: "(js_error + 'a) list \<Rightarrow> js_error list" where
  "rejections [] = []"
| "rejections (Inl e # rs) = e # rejections rs"
| "rejections (Inr v # rs) = rejections rs"

definition promise_all :: "(js_error list \<Rightarrow> nat) \<Rightarrow> (js_error + 'a) list \<Rightarrow> js_error + unit" where
  "promise_all race rs =
     (case rejections rs of
        [] \<Rightarrow> Inr ()
      | e # es \<Rightarrow> Inl ((e # es) ! (race (e # es) mod length (e # es))))"

definition maxFileSize :: nat where
  "maxFileSize = 100 * 1024 * 1024"

definition upload_try ::
  "backend \<Rightarrow> (string \<Rightarrow> js_error + bytes) \<Rightarrow> (string option \<Rightarrow> js_error + config option) \<Rightarrow>
   (command list \<Rightarrow> formDataFile list \<Rightarrow> nat) \<Rightarrow> (js_error list \<Rightarrow> nat) \<Rightarrow>
   (nat \<Rightarrow> js_error + formData) \<Rightarrow> command list \<times> (js_error + responseBody)" where
  "upload_try send readFile json_parse pick race read =
     (case read maxFileSize of
        Inl e \<Rightarrow> ([], Inl e)
      | Inr fd \<Rightarrow>
          (case json_parse (fields_config fd) of
             Inl e \<Rightarrow> ([], Inl e)
           | Inr cfg \<Rightarrow>
               (case createS3Client cfg of
                  Inl e \<Rightarrow> ([], Inl e)
                | Inr s3Client \<Rightarrow>
                    (let filesToUpload = (case files fd of None \<Rightarrow> [] | Some fs \<Rightarrow> fs) in
                     case upload_files send readFile pick s3Client (fields_bucket fd)
                            (fields_path fd) filesToUpload of
                       (calls, uploadPromises) \<Rightarrow>
                         (case promise_all race uploadPromises of
                            Inl e \<Rightarrow> (calls, Inl e)
                          | Inr u \<Rightarrow> (calls, Inr (Success ''All files processed.'')))))))"

definition upload_handler ::
  "backend \<Rightarrow> (string \<Rightarrow> js_error + bytes) \<Rightarrow> (string option \<Rightarrow> js_error + config option) \<Rightarrow>
   (command list \<Rightarrow> formDataFile list \<Rightarrow> nat) \<Rightarrow> (js_error list \<Rightarrow> nat) \<Rightarrow>
   (nat \<Rightarrow> js_error + formData) \<Rightarrow> command list \<times> response" where
  "upload_handler send readFile json_parse pick race read =
     finish error_catch (upload_try send readFile json_parse pick race read)"

section \<open>The form-data reader\<close>

text \<open>
  Modelled from the library: oak 12.6.1, \<open>multipart.ts\<close>, which is not in the source
  tree. Only its size check is modelled. A file part of the request has a name and a
  number of bytes. The reader counts the bytes of each file as it goes through the body
  and throws \<open>File size exceeds limit of ${maxFileSize} bytes.\<close> once the count of a file
  is over \<open>maxFileSize\<close>. It counts the lines of the body, so \<open>overhead\<close> bytes of framing
  (the line end before the boundary) are counted with a file; the properties below hold
  whatever \<open>overhead\<close> is. The body is taken to be well formed, so that the size check is
  the only way for the reader to throw, and \<open>accepted\<close> is the form data it returns
  otherwise.
\<close>

fun decimal :: "nat \<Rightarrow> string" where
  "decimal n =
     (if n < 10 then [''0123456789'' ! n]
      else decimal (n div 10) @ [''0123456789'' ! (n mod 10)])"

record filePart =
  part_name :: string
  part_size :: nat

definition too_large :: "nat \<Rightarrow> js_error" where
  "too_large limit = Error (''File size exceeds limit of '' @ decimal limit @ '' bytes.'')"

definition form_reader :: "nat \<Rightarrow> filePart list \<Rightarrow> formData \<Rightarrow> nat \<Rightarrow> js_error + formData" where
  "form_reader overhead parts accepted limit =
     (if list_ex (\<lambda>p. part_size p + overhead > limit) parts
      then Inl (too_large limit)
      else Inr accepted)"

section \<open>Zero-length files\<close>

text \<open>
  These three are not in the source: they are the specification's side of the
  properties of skipped files, written in terms of \<open>resolve\<close>. A file is zero-length
  when its data resolves, without a read error, to nothing or to no bytes (the test of
  line 177). \<open>without_zero_length\<close> is the same form data with those files left out.
  \<open>upload_commands\<close> lists, in the order of the files, the upload of every file that
  resolves to at least one byte.
\<close>

definition zero_length :: "(string \<Rightarrow> js_error + bytes) \<Rightarrow> formDataFile \<Rightarrow> bool" where
  "zero_length readFile file =
     (case resolve readFile file of
        Inl e \<Rightarrow> False
      | Inr None \<Rightarrow> True
      | Inr (Some d) \<Rightarrow> length d = 0)"

definition without_zero_length :: "(string \<Rightarrow> js_error + bytes) \<Rightarrow> formData \<Rightarrow> formData" where
  "without_zero_length readFile fd =
     fd\<lparr>files := map_option (filter (\<lambda>file. \<not> zero_length readFile file)) (files fd)\<rparr>"

fun upload_commands ::
  "(string \<Rightarrow> js_error + bytes) \<Rightarrow> string option \<Rightarrow> string option \<Rightarrow> formDataFile list \<Rightarrow> command list" where
  "upload_commands readFile bkt path [] = []"
| "upload_commands readFile bkt path (file # rest) =
     (case resolve readFile file of
        Inr (Some d) \<Rightarrow>
          if length d = 0 then upload_commands readFile bkt path rest
          else upload_command bkt path file d # upload_commands readFile bkt path rest
      | _ \<Rightarrow> upload_commands readFile bkt path rest)"

section \<open>Properties of the client factory\<close>

text \<open>
  C1 (amended). When the config is absent, or its region, accessKeyId or secretAccessKey
  is absent or the empty string, \<open>createS3Client\<close> throws and returns no client; the
  message of the error is ``Missing AWS configuration. Region, Access Key, and Secret Key
  are required.''. When all three fields are non-empty strings, it returns a client.
\<close>

theorem createS3Client_validation:
  "((cfg = None \<or>
     (\<exists>c. cfg = Some c \<and>
        (region c = None \<or> region c = Some [] \<or>
         accessKeyId c = None \<or> accessKeyId c = Some [] \<or>
         secretAccessKey c = None \<or> secretAccessKey c = Some [])))
    \<longrightarrow> createS3Client cfg =
          Inl (Error ''Missing AWS configuration. Region, Access Key, and Secret Key are required.''))
   \<and>
   ((\<exists>c r a s. cfg = Some c \<and> region c = Some r \<and> r \<noteq> [] \<and>
        accessKeyId c = Some a \<and> a \<noteq> [] \<and> secretAccessKey c = Some s \<and> s \<noteq> [])
    \<longrightarrow> (\<exists>client. createS3Client cfg = Inr client))"
proof (intro conjI impI)
  assume "cfg = None \<or>
     (\<exists>c. cfg = Some c \<and>
        (region c = None \<or> region c = Some [] \<or>
         accessKeyId c = None \<or> accessKeyId c = Some [] \<or>
         secretAccessKey c = None \<or> secretAccessKey c = Some []))"
  then show "createS3Client cfg =
          Inl (Error ''Missing AWS configuration. Region, Access Key, and Secret Key are required.'')"
    by (auto simp: createS3Client_def missing_configuration_def)
next
  assume "\<exists>c r a s. cfg = Some c \<and> region c = Some r \<and> r \<noteq> [] \<and>
        accessKeyId c = Some a \<and> a \<noteq> [] \<and> secretAccessKey c = Some s \<and> s \<noteq> []"
  then show "\<exists>client. createS3Client cfg = Inr client"
    by (auto simp: createS3Client_def Let_def)
qed

text \<open>The theorem at a config with an empty access key, and at a complete one.\<close>

theorem createS3Client_validation_witness:
  "createS3Client (Some \<lparr>region = Some ''eu-west-1'', accessKeyId = Some '''',
       secretAccessKey = Some ''SK'', endpoint = None\<rparr>) =
     Inl (Error ''Missing AWS configuration. Region, Access Key, and Secret Key are required.'')
   \<and> (\<exists>client. createS3Client (Some \<lparr>region = Some ''eu-west-1'', accessKeyId = Some ''AK'',
       secretAccessKey = Some ''SK'', endpoint = None\<rparr>) = Inr client)"
  using createS3Client_validation [of "Some \<lparr>region = Some ''eu-west-1'', accessKeyId = Some '''',
       secretAccessKey = Some ''SK'', endpoint = None\<rparr>"]
    createS3Client_validation [of "Some \<lparr>region = Some ''eu-west-1'', accessKeyId = Some ''AK'',
       secretAccessKey = Some ''SK'', endpoint = None\<rparr>"]
  by simp

text \<open>
  C1 as stated gives the message as ``missing AWS configuration''. That is not the text
  the source throws: at a config without region the error differs from it.
\<close>

theorem createS3Client_message_counterexample:
  "createS3Client (Some \<lparr>region = None, accessKeyId = Some ''AK'',
       secretAccessKey = Some ''SK'', endpoint = None\<rparr>) \<noteq>
     Inl (Error ''missing AWS configuration'')"
  by (simp add: createS3Client_def missing_configuration_def)

text \<open>
  C5 (amended). For a config from which a client is constructed: when endpoint is a
  non-empty string the client's configuration has that endpoint and forcePathStyle true;
  when endpoint is absent or the empty string it has neither an endpoint nor a
  path-style flag.
\<close>

theorem createS3Client_endpoint:
  assumes "createS3Client (Some c) = Inr (S3Client cc)"
  shows "(\<forall>e. endpoint c = Some e \<and> e \<noteq> [] \<longrightarrow>
            client_endpoint cc = Some e \<and> forcePathStyle cc = Some True)
       \<and> (endpoint c = None \<or> endpoint c = Some [] \<longrightarrow>
            client_endpoint cc = None \<and> forcePathStyle cc = None)"
  using assms
  by (auto simp: createS3Client_def Let_def split: if_splits)

text \<open>The theorem at a config with a MinIO-style endpoint.\<close>

theorem createS3Client_endpoint_witness:
  "client_endpoint \<lparr>client_region = Some ''us-east-1'',
        client_credentials = \<lparr>cred_accessKeyId = Some ''AK'', cred_secretAccessKey = Some ''SK''\<rparr>,
        client_endpoint = Some ''http://localhost:9000'', forcePathStyle = Some True\<rparr> =
      Some ''http://localhost:9000''
   \<and> forcePathStyle \<lparr>client_region = Some ''us-east-1'',
        client_credentials = \<lparr>cred_accessKeyId = Some ''AK'', cred_secretAccessKey = Some ''SK''\<rparr>,
        client_endpoint = Some ''http://localhost:9000'', forcePathStyle = Some True\<rparr> = Some True
   \<and> createS3Client (Some \<lparr>region = Some ''us-east-1'', accessKeyId = Some ''AK'',
        secretAccessKey = Some ''SK'', endpoint = Some ''http://localhost:9000''\<rparr>) =
      Inr (S3Client \<lparr>client_region = Some ''us-east-1'',
        client_credentials = \<lparr>cred_accessKeyId = Some ''AK'', cred_secretAccessKey = Some ''SK''\<rparr>,
        client_endpoint = Some ''http://localhost:9000'', forcePathStyle = Some True\<rparr>)"
proof -
  have h: "createS3Client (Some \<lparr>region = Some ''us-east-1'', accessKeyId = Some ''AK'',
        secretAccessKey = Some ''SK'', endpoint = Some ''http://localhost:9000''\<rparr>) =
      Inr (S3Client \<lparr>client_region = Some ''us-east-1'',
        client_credentials = \<lparr>cred_accessKeyId = Some ''AK'', cred_secretAccessKey = Some ''SK''\<rparr>,
        client_endpoint = Some ''http://localhost:9000'', forcePathStyle = Some True\<rparr>)"
    by (simp add: createS3Client_def)
  from createS3Client_endpoint [OF h] h show ?thesis by simp
qed

text \<open>
  C5 as stated speaks of an endpoint that is present. An endpoint that is present and
  empty fails \<open>if (config.endpoint)\<close>: the client gets no endpoint and no path-style flag.
\<close>

theorem createS3Client_empty_endpoint_counterexample:
  "endpoint \<lparr>region = Some ''us-east-1'', accessKeyId = Some ''AK'',
        secretAccessKey = Some ''SK'', endpoint = Some ''''\<rparr> \<noteq> None
   \<and> createS3Client (Some \<lparr>region = Some ''us-east-1'', accessKeyId = Some ''AK'',
        secretAccessKey = Some ''SK'', endpoint = Some ''''\<rparr>) =
      Inr (S3Client \<lparr>client_region = Some ''us-east-1'',
        client_credentials = \<lparr>cred_accessKeyId = Some ''AK'', cred_secretAccessKey = Some ''SK''\<rparr>,
        client_endpoint = None, forcePathStyle = None\<rparr>)"
  by (simp add: createS3Client_def)

section \<open>Properties of the delete handler and of bucket creation\<close>



lemma delete_buckets_first_failure:
  assumes "k < length bs"
    and "\<forall>j<k. \<exists>out. send c (calls @ map (\<lambda>i. DeleteBucketCommand (Name i)) (take j bs))
                         (DeleteBucketCommand (Name (bs ! j))) = Inr out"
    and "send c (calls @ map (\<lambda>i. DeleteBucketCommand (Name i)) (take k bs))
               (DeleteBucketCommand (Name (bs ! k))) = Inl e"
  shows "delete_buckets send c calls bs =
           (calls @ map (\<lambda>i. DeleteBucketCommand (Name i)) (take (Suc k) bs), Inl e)"
  using assms
proof (induction bs arbitrary: calls k)
  case Nil
  then show ?case by simp
next
  case (Cons b bs)
  show ?case
  proof (cases k)
    case 0
    with Cons.prems(3) show ?thesis by simp
  next
    case (Suc k')
    from Cons.prems(2) Suc have "\<exists>out. send c calls (DeleteBucketCommand (Name b)) = Inr out"
      by (metis (no_types, lifting) append_Nil2 list.simps(8) nth_Cons_0 take_0 zero_less_Suc)
    then obtain out where out: "send c calls (DeleteBucketCommand (Name b)) = Inr out" ..
    have k': "k' < length bs" using Cons.prems(1) Suc by simp
    have prev: "\<forall>j<k'. \<exists>out. send c ((calls @ [DeleteBucketCommand (Name b)]) @
                     map (\<lambda>i. DeleteBucketCommand (Name i)) (take j bs))
                  (DeleteBucketCommand (Name (bs ! j))) = Inr out"
    proof (intro allI impI)
      fix j assume "j < k'"
      then have "Suc j < k" using Suc by simp
      with Cons.prems(2) show "\<exists>out. send c ((calls @ [DeleteBucketCommand (Name b)]) @
                     map (\<lambda>i. DeleteBucketCommand (Name i)) (take j bs))
                  (DeleteBucketCommand (Name (bs ! j))) = Inr out"
        by fastforce
    qed
    have fails: "send c ((calls @ [DeleteBucketCommand (Name b)]) @
                     map (\<lambda>i. DeleteBucketCommand (Name i)) (take k' bs))
                  (DeleteBucketCommand (Name (bs ! k'))) = Inl e"
      using Cons.prems(3) Suc by simp
    from Cons.IH [OF k' prev fails] out Suc show ?thesis by simp
  qed
qed

text \<open>
  C2. A bucket-creation request with a usable config sends exactly one command, the
  \<open>CreateBucketCommand\<close>: when the body's region is \<open>us-east-1\<close> it has no
  \<open>CreateBucketConfiguration\<close>, and for every other region value its
  \<open>LocationConstraint\<close> is that region as received. A request whose body cannot be read
  or whose config is rejected sends nothing.
\<close>

theorem create_bucket_location_constraint:
  "(\<forall>c. createS3Client (config b) = Inr c \<longrightarrow>
      fst (create_bucket_handler send (Inr b)) =
        [CreateBucketCommand (bucketName b)
           (if region' b = Some ''us-east-1'' then None
            else Some \<lparr>LocationConstraint = region' b\<rparr>)])
   \<and> (\<forall>e. createS3Client (config b) = Inl e \<longrightarrow>
      fst (create_bucket_handler send (Inr b)) = [])
   \<and> fst (create_bucket_handler send (Inl e')) = []"
  by (auto simp: create_bucket_handler_def create_bucket_try_def create_bucket_command_def
        finish_def Let_def split: sum.splits)

text \<open>The theorem at region \<open>eu-west-1\<close> and at region \<open>us-east-1\<close>.\<close>

theorem create_bucket_location_constraint_witness:
  "fst (create_bucket_handler (\<lambda>c h cmd. Inr \<lparr>Buckets = None, Contents = None, CommonPrefixes = None\<rparr>)
     (Inr \<lparr>config = Some \<lparr>region = Some ''us-east-1'', accessKeyId = Some ''AK'',
                 secretAccessKey = Some ''SK'', endpoint = None\<rparr>,
            bucket = None, prefix' = None, bucketName = Some ''demo'',
            region' = Some ''eu-west-1'', key = None, items = []\<rparr>)) =
     [CreateBucketCommand (Some ''demo'') (Some \<lparr>LocationConstraint = Some ''eu-west-1''\<rparr>)]
   \<and> fst (create_bucket_handler (\<lambda>c h cmd. Inr \<lparr>Buckets = None, Contents = None, CommonPrefixes = None\<rparr>)
     (Inr \<lparr>config = Some \<lparr>region = Some ''eu-west-1'', accessKeyId = Some ''AK'',
                 secretAccessKey = Some ''SK'', endpoint = None\<rparr>,
            bucket = None, prefix' = None, bucketName = Some ''demo'',
            region' = Some ''us-east-1'', key = None, items = []\<rparr>)) =
     [CreateBucketCommand (Some ''demo'') None]"
  using create_bucket_location_constraint
    [of "\<lparr>config = Some \<lparr>region = Some ''us-east-1'', accessKeyId = Some ''AK'',
                 secretAccessKey = Some ''SK'', endpoint = None\<rparr>,
            bucket = None, prefix' = None, bucketName = Some ''demo'',
            region' = Some ''eu-west-1'', key = None, items = []\<rparr>"
        "\<lambda>c h cmd. Inr \<lparr>Buckets = None, Contents = None, CommonPrefixes = None\<rparr>"]
    create_bucket_location_constraint
    [of "\<lparr>config = Some \<lparr>region = Some ''eu-west-1'', accessKeyId = Some ''AK'',
                 secretAccessKey = Some ''SK'', endpoint = None\<rparr>,
            bucket = None, prefix' = None, bucketName = Some ''demo'',
            region' = Some ''us-east-1'', key = None, items = []\<rparr>"
        "\<lambda>c h cmd. Inr \<lparr>Buckets = None, Contents = None, CommonPrefixes = None\<rparr>"]
  by (simp add: createS3Client_def)

text \<open>
  C9. A delete request with a usable config and an empty \<open>items\<close> sends no command at
  all and answers 200 with \<open>{success: true, message: 'Items deleted successfully.'}\<close>,
  whatever the \<open>bucket\<close> field is, absent included.
\<close>

theorem delete_empty_items:
  assumes "createS3Client (config b) = Inr c" and "items b = []"
  shows "delete_handler send (Inr b) =
           ([], \<lparr>status = 200, body = Success ''Items deleted successfully.''\<rparr>)"
  using assms
  by (simp add: delete_handler_def delete_try_def delete_objects_def finish_def ok_def)

text \<open>The theorem at a request without bucket, on a backend that would reject any call.\<close>

theorem delete_empty_items_witness:
  "delete_handler (\<lambda>c h cmd. Inl (Error ''unreachable''))
     (Inr \<lparr>config = Some \<lparr>region = Some ''us-east-1'', accessKeyId = Some ''AK'',
                 secretAccessKey = Some ''SK'', endpoint = None\<rparr>,
            bucket = None, prefix' = None, bucketName = None,
            region' = None, key = None, items = []\<rparr>) =
     ([], \<lparr>status = 200, body = Success ''Items deleted successfully.''\<rparr>)"
proof -
  have c: "createS3Client (config \<lparr>config = Some \<lparr>region = Some ''us-east-1'', accessKeyId = Some ''AK'',
                 secretAccessKey = Some ''SK'', endpoint = None\<rparr>,
            bucket = None, prefix' = None, bucketName = None,
            region' = None, key = None, items = []\<rparr>) =
      Inr (S3Client \<lparr>client_region = Some ''us-east-1'',
        client_credentials = \<lparr>cred_accessKeyId = Some ''AK'', cred_secretAccessKey = Some ''SK''\<rparr>,
        client_endpoint = None, forcePathStyle = None\<rparr>)"
    by (simp add: createS3Client_def)
  show ?thesis by (rule delete_empty_items [OF c]) simp
qed

text \<open>
  C4 (amended). A delete request with a usable config, at least one item, only object
  items, and a \<open>bucket\<close> that is absent (or empty) fails with the message ``Bucket name is
  required for deleting objects.'', status 500, and sends no command.
\<close>

theorem delete_objects_without_bucket:
  assumes "createS3Client (config b) = Inr c"
    and "items b \<noteq> []"
    and "\<forall>i\<in>set (items b). \<not> isBucket i"
    and "bucket b = None \<or> bucket b = Some []"
  shows "delete_handler send (Inr b) =
           ([], \<lparr>status = 500, body = ErrorBody ''Bucket name is required for deleting objects.''\<rparr>)"
proof -
  have "filter (\<lambda>item. \<not> isBucket item) (items b) = items b"
    using assms(3) by (simp add: filter_id_conv)
  moreover have "\<not> truthy (bucket b)" using assms(4) by auto
  ultimately show ?thesis
    using assms(1,2)
    by (simp add: delete_handler_def delete_try_def delete_objects_def finish_def
        error_catch_def bucket_required_def)
qed

text \<open>The theorem at a request with one object item and no bucket.\<close>

theorem delete_objects_without_bucket_witness:
  "delete_handler (\<lambda>c h cmd. Inr \<lparr>Buckets = None, Contents = None, CommonPrefixes = None\<rparr>)
     (Inr \<lparr>config = Some \<lparr>region = Some ''us-east-1'', accessKeyId = Some ''AK'',
                 secretAccessKey = Some ''SK'', endpoint = None\<rparr>,
            bucket = None, prefix' = None, bucketName = None, region' = None, key = None,
            items = [\<lparr>isBucket = False, Key = Some ''a.txt'', Name = None\<rparr>]\<rparr>) =
     ([], \<lparr>status = 500, body = ErrorBody ''Bucket name is required for deleting objects.''\<rparr>)"
proof -
  have c: "createS3Client (config \<lparr>config = Some \<lparr>region = Some ''us-east-1'', accessKeyId = Some ''AK'',
                 secretAccessKey = Some ''SK'', endpoint = None\<rparr>,
            bucket = None, prefix' = None, bucketName = None, region' = None, key = None,
            items = [\<lparr>isBucket = False, Key = Some ''a.txt'', Name = None\<rparr>]\<rparr>) =
      Inr (S3Client \<lparr>client_region = Some ''us-east-1'',
        client_credentials = \<lparr>cred_accessKeyId = Some ''AK'', cred_secretAccessKey = Some ''SK''\<rparr>,
        client_endpoint = None, forcePathStyle = None\<rparr>)"
    by (simp add: createS3Client_def)
  show ?thesis by (rule delete_objects_without_bucket [OF c]) simp_all
qed

text \<open>
  C4 as stated covers every such request. When the config is missing too,
  \<open>createS3Client\<close> throws first: the status is 500 and nothing is sent, but the message
  is the configuration one, not the validation one.
\<close>

theorem delete_objects_without_bucket_counterexample:
  "delete_handler (\<lambda>c h cmd. Inr \<lparr>Buckets = None, Contents = None, CommonPrefixes = None\<rparr>)
     (Inr \<lparr>config = None,
            bucket = None, prefix' = None, bucketName = None, region' = None, key = None,
            items = [\<lparr>isBucket = False, Key = Some ''a.txt'', Name = None\<rparr>]\<rparr>) =
     ([], \<lparr>status = 500, body = ErrorBody
        ''Missing AWS configuration. Region, Access Key, and Secret Key are required.''\<rparr>)
   \<and> ErrorBody ''Missing AWS configuration. Region, Access Key, and Secret Key are required.'' \<noteq>
       ErrorBody ''Bucket name is required for deleting objects.''"
  by (simp add: delete_handler_def delete_try_def finish_def error_catch_def createS3Client_def
      missing_configuration_def)




text \<open>
  C10. In a delete request whose object phase went through (having sent \<open>calls\<close>), when
  the \<open>DeleteBucketCommand\<close>s of the bucket items before position \<open>k\<close> are accepted and
  the one of the item at position \<open>k\<close> is rejected, the commands sent are \<open>calls\<close>
  followed by the \<open>DeleteBucketCommand\<close>s of the items up to and including position \<open>k\<close>,
  and nothing for any later bucket item; the request answers 500 with the message of
  that rejection.
\<close>

theorem delete_stops_at_failed_bucket:
  assumes "createS3Client (config b) = Inr c"
    and "delete_objects send c (bucket b) (filter (\<lambda>i. \<not> isBucket i) (items b)) = (calls, Inr ())"
    and "bkts = filter (\<lambda>i. isBucket i) (items b)"
    and "k < length bkts"
    and "\<forall>j<k. \<exists>out. send c (calls @ map (\<lambda>i. DeleteBucketCommand (Name i)) (take j bkts))
                         (DeleteBucketCommand (Name (bkts ! j))) = Inr out"
    and "send c (calls @ map (\<lambda>i. DeleteBucketCommand (Name i)) (take k bkts))
               (DeleteBucketCommand (Name (bkts ! k))) = Inl e"
  shows "delete_handler send (Inr b) =
           (calls @ map (\<lambda>i. DeleteBucketCommand (Name i)) (take (Suc k) bkts),
            \<lparr>status = 500, body = ErrorBody (message e)\<rparr>)"
proof -
  have "delete_buckets send c calls bkts =
          (calls @ map (\<lambda>i. DeleteBucketCommand (Name i)) (take (Suc k) bkts), Inl e)"
    using assms(4,5,6) by (rule delete_buckets_first_failure)
  then show ?thesis
    using assms(1,2) unfolding assms(3)
    by (simp add: delete_handler_def delete_try_def finish_def error_catch_def)
qed

text \<open>The theorem at three buckets, the second of which the backend refuses.\<close>

theorem delete_stops_at_failed_bucket_witness:
  "delete_handler
     (\<lambda>c h cmd. if cmd = DeleteBucketCommand (Some ''full'') then Inl (Error ''BucketNotEmpty'')
                 else Inr \<lparr>Buckets = None, Contents = None, CommonPrefixes = None\<rparr>)
     (Inr \<lparr>config = Some \<lparr>region = Some ''us-east-1'', accessKeyId = Some ''AK'',
                 secretAccessKey = Some ''SK'', endpoint = None\<rparr>,
            bucket = None, prefix' = None, bucketName = None, region' = None, key = None,
            items = [\<lparr>isBucket = True, Key = None, Name = Some ''old''\<rparr>,
                     \<lparr>isBucket = True, Key = None, Name = Some ''full''\<rparr>,
                     \<lparr>isBucket = True, Key = None, Name = Some ''tmp''\<rparr>]\<rparr>) =
     ([DeleteBucketCommand (Some ''old''), DeleteBucketCommand (Some ''full'')],
      \<lparr>status = 500, body = ErrorBody ''BucketNotEmpty''\<rparr>)"
proof -
  let ?b = "\<lparr>config = Some \<lparr>region = Some ''us-east-1'', accessKeyId = Some ''AK'',
                 secretAccessKey = Some ''SK'', endpoint = None\<rparr>,
            bucket = None, prefix' = None, bucketName = None, region' = None, key = None,
            items = [\<lparr>isBucket = True, Key = None, Name = Some ''old''\<rparr>,
                     \<lparr>isBucket = True, Key = None, Name = Some ''full''\<rparr>,
                     \<lparr>isBucket = True, Key = None, Name = Some ''tmp''\<rparr>]\<rparr>"
  let ?c = "S3Client \<lparr>client_region = Some ''us-east-1'',
        client_credentials = \<lparr>cred_accessKeyId = Some ''AK'', cred_secretAccessKey = Some ''SK''\<rparr>,
        client_endpoint = None, forcePathStyle = None\<rparr>"
  let ?send = "\<lambda>(c::s3client) (h::command list) (cmd::command).
        if cmd = DeleteBucketCommand (Some ''full'') then Inl (Error ''BucketNotEmpty'')
        else (Inr \<lparr>Buckets = None, Contents = None, CommonPrefixes = None\<rparr> :: js_error + s3output)"
  have c: "createS3Client (config ?b) = Inr ?c"
    by (simp add: createS3Client_def)
  have o: "delete_objects ?send ?c (bucket ?b) (filter (\<lambda>i. \<not> isBucket i) (items ?b)) = ([], Inr ())"
    by (simp add: delete_objects_def)
  have k: "items ?b = filter (\<lambda>i. isBucket i) (items ?b)" by simp
  have l: "(1::nat) < length (items ?b)" by simp
  have p: "\<forall>j<1::nat. \<exists>out. ?send ?c ([] @ map (\<lambda>i. DeleteBucketCommand (Name i)) (take j (items ?b)))
                         (DeleteBucketCommand (Name (items ?b ! j))) = Inr out" by simp
  have f: "?send ?c ([] @ map (\<lambda>i. DeleteBucketCommand (Name i)) (take 1 (items ?b)))
               (DeleteBucketCommand (Name (items ?b ! 1))) = Inl (Error ''BucketNotEmpty'')" by simp
  from delete_stops_at_failed_bucket [OF c o k l p f]
  show ?thesis by (simp add: numeral_2_eq_2)
qed

section \<open>Properties of the upload handler\<close>

lemma too_large_100MiB:
  "too_large 104857600 = Error ''File size exceeds limit of 104857600 bytes.''"
  by (simp add: too_large_def)

lemma upload_file_zero_length:
  "zero_length readFile file \<Longrightarrow>
   upload_file send readFile c bkt path calls file = (calls, Inr ())"
  by (auto simp: zero_length_def upload_file_def split: sum.splits option.splits)

lemma zero_length_not_sends: "zero_length readFile file \<Longrightarrow> \<not> sends readFile file"
  by (auto simp: zero_length_def sends_def split: sum.splits option.splits)

lemma upload_file_calls:
  "fst (upload_file send readFile c bkt path calls f) =
     calls @ upload_commands readFile bkt path [f]"
  by (simp add: upload_file_def Let_def split: sum.splits option.splits)

lemma upload_commands_append:
  "upload_commands readFile bkt path (fs @ gs) =
     upload_commands readFile bkt path fs @ upload_commands readFile bkt path gs"
  by (induction fs) (simp_all split: sum.splits option.splits)

lemma upload_commands_others:
  assumes "i < length fs"
  shows "mset (upload_commands readFile bkt path [fs ! i]) +
         mset (upload_commands readFile bkt path (others i fs)) =
         mset (upload_commands readFile bkt path fs)"
proof -
  have "fs = take i fs @ [fs ! i] @ drop (Suc i) fs"
    using assms by (simp add: id_take_nth_drop)
  then have "upload_commands readFile bkt path fs =
      upload_commands readFile bkt path (take i fs) @
      upload_commands readFile bkt path [fs ! i] @
      upload_commands readFile bkt path (drop (Suc i) fs)"
    by (metis upload_commands_append)
  then show ?thesis
    by (simp add: others_def upload_commands_append)
qed

lemma upload_in_turn_Cons:
  "upload_in_turn send readFile pick c bkt path calls (w # ws) =
     (fst (upload_in_turn send readFile pick c bkt path
             (fst (upload_file send readFile c bkt path calls
                     ((w # ws) ! (pick calls (w # ws) mod length (w # ws)))))
             (others (pick calls (w # ws) mod length (w # ws)) (w # ws))),
      snd (upload_file send readFile c bkt path calls
             ((w # ws) ! (pick calls (w # ws) mod length (w # ws)))) #
      snd (upload_in_turn send readFile pick c bkt path
             (fst (upload_file send readFile c bkt path calls
                     ((w # ws) ! (pick calls (w # ws) mod length (w # ws)))))
             (others (pick calls (w # ws) mod length (w # ws)) (w # ws))))"
  by (simp add: Let_def split: prod.splits)

lemma upload_in_turn_calls:
  "mset (fst (upload_in_turn send readFile pick c bkt path calls ws)) =
     mset calls + mset (upload_commands readFile bkt path ws)"
proof (induction send readFile pick c bkt path calls ws rule: upload_in_turn.induct)
  case (1 send readFile pick s3Client bkt path calls)
  show ?case by simp
next
  case (2 send readFile pick s3Client bkt path calls w ws)
  let ?i = "pick calls (w # ws) mod length (w # ws)"
  let ?f = "(w # ws) ! ?i"
  have i: "?i < length (w # ws)" by simp
  obtain calls1 r where u: "upload_file send readFile s3Client bkt path calls ?f = (calls1, r)"
    by (cases "upload_file send readFile s3Client bkt path calls ?f")
  have c1: "calls1 = calls @ upload_commands readFile bkt path [?f]"
    using upload_file_calls [of send readFile s3Client bkt path calls ?f] u by simp
  have "mset (fst (upload_in_turn send readFile pick s3Client bkt path calls1 (others ?i (w # ws)))) =
        mset calls1 + mset (upload_commands readFile bkt path (others ?i (w # ws)))"
    using "2.IH" [OF refl refl u [symmetric]] .
  then have "mset (fst (upload_in_turn send readFile pick s3Client bkt path calls (w # ws))) =
        mset calls + (mset (upload_commands readFile bkt path [?f]) +
                      mset (upload_commands readFile bkt path (others ?i (w # ws))))"
    unfolding upload_in_turn_Cons using u c1 by simp
  then show ?case
    unfolding upload_commands_others [OF i] .
qed

lemma upload_commands_senders:
  "upload_commands readFile bkt path (filter (\<lambda>file. sends readFile file) fs) =
   upload_commands readFile bkt path fs"
  by (induction fs) (auto simp: sends_def split: sum.splits option.splits)

lemma upload_files_alt:
  "upload_files send readFile pick c bkt path fs =
     (fst (upload_in_turn send readFile pick c bkt path []
             (filter (\<lambda>file. sends readFile file) fs)),
      map (\<lambda>file. snd (upload_file send readFile c bkt path [] file))
        (filter (\<lambda>file. \<not> sends readFile file) fs) @
      snd (upload_in_turn send readFile pick c bkt path []
             (filter (\<lambda>file. sends readFile file) fs)))"
  by (simp add: upload_files_def split: prod.splits)

lemma upload_files_calls:
  "mset (fst (upload_files send readFile pick c bkt path fs)) =
     mset (upload_commands readFile bkt path fs)"
  using upload_in_turn_calls [of send readFile pick c bkt path "[]" "filter (\<lambda>file. sends readFile file) fs"]
  by (simp add: upload_files_alt upload_commands_senders)

lemma upload_commands_bodies:
  "cmd \<in> set (upload_commands readFile bkt path fs) \<Longrightarrow>
   \<exists>p. cmd = Upload p \<and> up_Body p \<noteq> []"
  by (induction fs) (auto simp: upload_command_def split: sum.splits option.splits if_splits)

lemma set_others: "set (others i xs) \<subseteq> set xs"
  by (auto simp: others_def dest: in_set_takeD in_set_dropD)

lemma upload_file_accepted:
  assumes "\<And>h cmd. \<exists>out. send c h cmd = Inr out"
    and "\<exists>d. resolve readFile f = Inr d"
  shows "snd (upload_file send readFile c bkt path calls f) = Inr ()"
proof -
  obtain d where d: "resolve readFile f = Inr d" using assms(2) by auto
  show ?thesis
  proof (cases d)
    case None
    with d show ?thesis by (simp add: upload_file_def)
  next
    case (Some bs)
    obtain out where "send c calls (upload_command bkt path f bs) = Inr out"
      using assms(1) by blast
    with d Some show ?thesis by (simp add: upload_file_def Let_def)
  qed
qed

lemma upload_in_turn_no_rejection:
  assumes "\<And>h cmd. \<exists>out. send c h cmd = Inr out"
    and "\<And>f. f \<in> set ws \<Longrightarrow> \<exists>d. resolve readFile f = Inr d"
  shows "rejections (snd (upload_in_turn send readFile pick c bkt path calls ws)) = []"
  using assms
proof (induction send readFile pick c bkt path calls ws rule: upload_in_turn.induct)
  case (1 send readFile pick s3Client bkt path calls)
  show ?case by simp
next
  case (2 send readFile pick s3Client bkt path calls w ws)
  let ?i = "pick calls (w # ws) mod length (w # ws)"
  let ?f = "(w # ws) ! ?i"
  have i: "?i < length (w # ws)" by simp
  then have mem: "?f \<in> set (w # ws)" by (rule nth_mem)
  obtain calls1 r where u: "upload_file send readFile s3Client bkt path calls ?f = (calls1, r)"
    by (cases "upload_file send readFile s3Client bkt path calls ?f")
  have "snd (upload_file send readFile s3Client bkt path calls ?f) = Inr ()"
    using "2.prems"(1) "2.prems"(2) [OF mem] by (rule upload_file_accepted)
  moreover have "rejections (snd (upload_in_turn send readFile pick s3Client bkt path calls1
                    (others ?i (w # ws)))) = []"
  proof (rule "2.IH" [OF refl refl u [symmetric]])
    show "\<exists>out. send s3Client h cmd = Inr out" for h cmd by (rule "2.prems"(1))
    show "\<exists>d. resolve readFile f = Inr d" if "f \<in> set (others ?i (w # ws))" for f
      using that set_others [of ?i "w # ws"] "2.prems"(2) by blast
  qed
  ultimately show ?case
    unfolding upload_in_turn_Cons using u by simp
qed

lemma rejections_Cons:
  "rejections (r # rs) = (case r of Inl e \<Rightarrow> [e] | Inr v \<Rightarrow> []) @ rejections rs"
  by (cases r) simp_all

lemma rejections_append: "rejections (xs @ ys) = rejections xs @ rejections ys"
  by (induction xs rule: rejections.induct) simp_all

lemma upload_files_no_rejection:
  assumes "\<And>h cmd. \<exists>out. send c h cmd = Inr out"
    and "\<And>f. f \<in> set fs \<Longrightarrow> \<exists>d. resolve readFile f = Inr d"
  shows "rejections (snd (upload_files send readFile pick c bkt path fs)) = []"
proof -
  have a: "rejections (snd (upload_in_turn send readFile pick c bkt path []
             (filter (\<lambda>file. sends readFile file) fs))) = []"
    using assms by (intro upload_in_turn_no_rejection) auto
  have b: "rejections (map (\<lambda>file. snd (upload_file send readFile c bkt path [] file)) gs) = []"
    if "set gs \<subseteq> set fs" for gs
    using that
  proof (induction gs)
    case Nil
    show ?case by simp
  next
    case (Cons g gs)
    have "snd (upload_file send readFile c bkt path [] g) = Inr ()"
      using assms(1) by (rule upload_file_accepted) (use Cons.prems assms(2) in auto)
    with Cons show ?case by simp
  qed
  show ?thesis
    using a b [of "filter (\<lambda>file. \<not> sends readFile file) fs"]
    by (simp add: upload_files_alt rejections_append)
qed

lemma upload_files_without_zero_length:
  "fst (upload_files send readFile pick c bkt path (filter (\<lambda>f. \<not> zero_length readFile f) fs)) =
     fst (upload_files send readFile pick c bkt path fs)
   \<and> rejections (snd (upload_files send readFile pick c bkt path
                        (filter (\<lambda>f. \<not> zero_length readFile f) fs))) =
     rejections (snd (upload_files send readFile pick c bkt path fs))"
proof -
  have s: "filter (\<lambda>file. sends readFile file) (filter (\<lambda>f. \<not> zero_length readFile f) fs) =
           filter (\<lambda>file. sends readFile file) fs"
    by (induction fs) (auto dest: zero_length_not_sends)
  have q: "rejections (map (\<lambda>file. snd (upload_file send readFile c bkt path [] file))
              (filter (\<lambda>file. \<not> sends readFile file) (filter (\<lambda>f. \<not> zero_length readFile f) fs))) =
           rejections (map (\<lambda>file. snd (upload_file send readFile c bkt path [] file))
              (filter (\<lambda>file. \<not> sends readFile file) fs))"
    by (induction fs) (auto simp: upload_file_zero_length rejections_Cons dest: zero_length_not_sends)
  show ?thesis
    unfolding upload_files_alt fst_conv snd_conv rejections_append s q by simp
qed

lemma upload_try_files:
  assumes "read maxFileSize = Inr fd" and "json_parse (fields_config fd) = Inr cfg"
    and "createS3Client cfg = Inr c"
  shows "upload_try send readFile json_parse pick race read =
     (let r = upload_files send readFile pick c (fields_bucket fd) (fields_path fd)
                (case files fd of None \<Rightarrow> [] | Some fs \<Rightarrow> fs)
      in (fst r, case rejections (snd r) of
                   [] \<Rightarrow> Inr (Success ''All files processed.'')
                 | e # es \<Rightarrow> Inl ((e # es) ! (race (e # es) mod length (e # es)))))"
  using assms
  by (simp add: upload_try_def promise_all_def Let_def split: prod.splits list.splits)

lemma upload_try_without_zero_length:
  assumes "read maxFileSize = Inr fd"
  shows "upload_try send readFile json_parse pick race (\<lambda>m. Inr (without_zero_length readFile fd)) =
         upload_try send readFile json_parse pick race read"
proof (cases "json_parse (fields_config fd)")
  case (Inl e)
  with assms show ?thesis by (simp add: upload_try_def without_zero_length_def)
next
  case (Inr cfg)
  show ?thesis
  proof (cases "createS3Client cfg")
    case (Inl e)
    with Inr assms show ?thesis by (simp add: upload_try_def without_zero_length_def)
  next
    case c: (Inr c)
    have j': "json_parse (fields_config (without_zero_length readFile fd)) = Inr cfg"
      using Inr by (simp add: without_zero_length_def)
    have fs: "(case files (without_zero_length readFile fd) of None \<Rightarrow> [] | Some fs \<Rightarrow> fs) =
          filter (\<lambda>f. \<not> zero_length readFile f) (case files fd of None \<Rightarrow> [] | Some fs \<Rightarrow> fs)"
      by (cases "files fd") (simp_all add: without_zero_length_def)
    have fld: "fields_bucket (without_zero_length readFile fd) = fields_bucket fd"
              "fields_path (without_zero_length readFile fd) = fields_path fd"
      by (simp_all add: without_zero_length_def)
    have a: "upload_try send readFile json_parse pick race (\<lambda>m. Inr (without_zero_length readFile fd)) =
     (let r = upload_files send readFile pick c (fields_bucket (without_zero_length readFile fd))
                (fields_path (without_zero_length readFile fd))
                (case files (without_zero_length readFile fd) of None \<Rightarrow> [] | Some fs \<Rightarrow> fs)
      in (fst r, case rejections (snd r) of
                   [] \<Rightarrow> Inr (Success ''All files processed.'')
                 | e # es \<Rightarrow> Inl ((e # es) ! (race (e # es) mod length (e # es)))))"
      by (rule upload_try_files [where cfg = cfg]) (simp_all add: j' c)
    have b: "upload_try send readFile json_parse pick race read =
     (let r = upload_files send readFile pick c (fields_bucket fd) (fields_path fd)
                (case files fd of None \<Rightarrow> [] | Some fs \<Rightarrow> fs)
      in (fst r, case rejections (snd r) of
                   [] \<Rightarrow> Inr (Success ''All files processed.'')
                 | e # es \<Rightarrow> Inl ((e # es) ! (race (e # es) mod length (e # es)))))"
      by (rule upload_try_files [where cfg = cfg]) (simp_all add: assms Inr c)
    show ?thesis
      unfolding a b fs fld
      using upload_files_without_zero_length
        [of send readFile pick c "fields_bucket fd" "fields_path fd"
            "case files fd of None \<Rightarrow> [] | Some fs \<Rightarrow> fs"]
      by (simp add: Let_def)
  qed
qed

lemma upload_handler_calls:
  assumes "read maxFileSize = Inr fd" and "json_parse (fields_config fd) = Inr cfg"
    and "createS3Client cfg = Inr c"
  shows "mset (fst (upload_handler send readFile json_parse pick race read)) =
           mset (upload_commands readFile (fields_bucket fd) (fields_path fd)
             (case files fd of None \<Rightarrow> [] | Some fs \<Rightarrow> fs))"
proof -
  have "upload_try send readFile json_parse pick race read =
     (let r = upload_files send readFile pick c (fields_bucket fd) (fields_path fd)
                (case files fd of None \<Rightarrow> [] | Some fs \<Rightarrow> fs)
      in (fst r, case rejections (snd r) of
                   [] \<Rightarrow> Inr (Success ''All files processed.'')
                 | e # es \<Rightarrow> Inl ((e # es) ! (race (e # es) mod length (e # es)))))"
    by (rule upload_try_files [where cfg = cfg]) (simp_all add: assms)
  then show ?thesis
    by (simp add: upload_handler_def finish_def Let_def upload_files_calls
        split: list.splits)
qed

lemma upload_handler_bodies:
  assumes "cmd \<in> set (fst (upload_handler send readFile json_parse pick race read))"
  shows "\<exists>p. cmd = Upload p \<and> up_Body p \<noteq> []"
proof (cases "read maxFileSize")
  case (Inl e)
  with assms show ?thesis by (simp add: upload_handler_def upload_try_def finish_def)
next
  case fd: (Inr fd)
  show ?thesis
  proof (cases "json_parse (fields_config fd)")
    case (Inl e)
    with fd assms show ?thesis by (simp add: upload_handler_def upload_try_def finish_def)
  next
    case cfg: (Inr cfg)
    show ?thesis
    proof (cases "createS3Client cfg")
      case (Inl e)
      with fd cfg assms show ?thesis by (simp add: upload_handler_def upload_try_def finish_def)
    next
      case (Inr c)
      have "set (fst (upload_handler send readFile json_parse pick race read)) =
            set (upload_commands readFile (fields_bucket fd) (fields_path fd)
                  (case files fd of None \<Rightarrow> [] | Some fs \<Rightarrow> fs))"
        using upload_handler_calls [where read = read and json_parse = json_parse, OF fd cfg Inr]
        by (rule mset_eq_setD)
      with assms show ?thesis
        by (auto dest: upload_commands_bodies)
    qed
  qed
qed

text \<open>
  C6. For every upload request that the reader hands over, whatever the timing of the
  callbacks: every command sent is an upload with at least one byte, so none is sent for
  a zero-length file; leaving the zero-length files out of the request changes neither
  the commands sent nor the response, so their presence makes no request fail; with a
  usable config the commands sent are the uploads of the files that resolve to at least
  one byte, each once, in an order that depends on the timing; and when no read fails
  and the backend accepts every upload the answer is 200.
\<close>

theorem upload_skips_zero_length:
  assumes "read maxFileSize = Inr fd"
  shows "(\<forall>cmd\<in>set (fst (upload_handler send readFile json_parse pick race read)).
            \<exists>p. cmd = Upload p \<and> up_Body p \<noteq> [])
       \<and> upload_handler send readFile json_parse pick race
           (\<lambda>m. Inr (without_zero_length readFile fd)) =
         upload_handler send readFile json_parse pick race read
       \<and> (\<forall>cfg c fs. json_parse (fields_config fd) = Inr cfg \<and> createS3Client cfg = Inr c \<and>
             files fd = Some fs \<longrightarrow>
            mset (fst (upload_handler send readFile json_parse pick race read)) =
              mset (upload_commands readFile (fields_bucket fd) (fields_path fd) fs)
            \<and> ((\<forall>h cmd. \<exists>out. send c h cmd = Inr out) \<and>
                (\<forall>f\<in>set fs. \<exists>d. resolve readFile f = Inr d) \<longrightarrow>
               snd (upload_handler send readFile json_parse pick race read) =
                 \<lparr>status = 200, body = Success ''All files processed.''\<rparr>))"
proof (intro conjI ballI allI impI)
  fix cmd
  assume "cmd \<in> set (fst (upload_handler send readFile json_parse pick race read))"
  then show "\<exists>p. cmd = Upload p \<and> up_Body p \<noteq> []"
    by (rule upload_handler_bodies)
next
  show "upload_handler send readFile json_parse pick race (\<lambda>m. Inr (without_zero_length readFile fd)) =
         upload_handler send readFile json_parse pick race read"
    unfolding upload_handler_def upload_try_without_zero_length [where read = read, OF assms] ..
next
  fix cfg c fs
  assume h: "json_parse (fields_config fd) = Inr cfg \<and> createS3Client cfg = Inr c \<and>
             files fd = Some fs"
  then show "mset (fst (upload_handler send readFile json_parse pick race read)) =
              mset (upload_commands readFile (fields_bucket fd) (fields_path fd) fs)"
    using upload_handler_calls [where read = read and json_parse = json_parse and cfg = cfg and c = c
        and send = send and readFile = readFile and race = race and pick = pick, OF assms] by simp
next
  fix cfg c fs
  assume h: "json_parse (fields_config fd) = Inr cfg \<and> createS3Client cfg = Inr c \<and>
             files fd = Some fs"
    and acc: "(\<forall>h cmd. \<exists>out. send c h cmd = Inr out) \<and>
              (\<forall>f\<in>set fs. \<exists>d. resolve readFile f = Inr d)"
  have "rejections (snd (upload_files send readFile pick c (fields_bucket fd) (fields_path fd) fs)) = []"
    using acc by (intro upload_files_no_rejection) auto
  moreover have "upload_try send readFile json_parse pick race read =
     (let r = upload_files send readFile pick c (fields_bucket fd) (fields_path fd)
                (case files fd of None \<Rightarrow> [] | Some fs \<Rightarrow> fs)
      in (fst r, case rejections (snd r) of
                   [] \<Rightarrow> Inr (Success ''All files processed.'')
                 | e # es \<Rightarrow> Inl ((e # es) ! (race (e # es) mod length (e # es)))))"
    by (rule upload_try_files [where cfg = cfg]) (simp_all add: assms h)
  ultimately show "snd (upload_handler send readFile json_parse pick race read) =
                 \<lparr>status = 200, body = Success ''All files processed.''\<rparr>"
    using h by (simp add: upload_handler_def finish_def Let_def ok_def)
qed

text \<open>
  The theorem at an empty file in memory, a two-byte file, a spooled file that reads
  back empty and a spooled file of one byte, with a timing that lets the last file send
  first: two uploads, the later file's before the earlier one's, status 200.
\<close>

theorem upload_skips_zero_length_witness:
  "upload_handler
     (\<lambda>c h cmd. Inr \<lparr>Buckets = None, Contents = None, CommonPrefixes = None\<rparr>)
     (\<lambda>fn. if fn = ''/tmp/b'' then Inr [] else Inr [33])
     (\<lambda>s. Inr (Some \<lparr>region = Some ''us-east-1'', accessKeyId = Some ''AK'',
                       secretAccessKey = Some ''SK'', endpoint = None\<rparr>))
     (\<lambda>calls waiting. 1)
     (\<lambda>es. 0)
     (\<lambda>m. Inr \<lparr>fields_config = Some ''{}'', fields_bucket = Some ''data'',
                fields_path = Some ''docs/'',
                files = Some [
                  \<lparr>content = Some [], filename = None, originalName = ''empty.txt'',
                   contentType = ''text/plain''\<rparr>,
                  \<lparr>content = Some [104, 105], filename = None, originalName = ''a.txt'',
                   contentType = ''text/plain''\<rparr>,
                  \<lparr>content = None, filename = Some ''/tmp/b'', originalName = ''b.txt'',
                   contentType = ''text/plain''\<rparr>,
                  \<lparr>content = None, filename = Some ''/tmp/c'', originalName = ''c.txt'',
                   contentType = ''text/plain''\<rparr>]\<rparr>) =
   ([Upload \<lparr>up_Bucket = Some ''data'', up_Key = ''docs/c.txt'', up_Body = [33],
             up_ContentType = ''text/plain'', up_ChecksumMode = ''DISABLED''\<rparr>,
     Upload \<lparr>up_Bucket = Some ''data'', up_Key = ''docs/a.txt'', up_Body = [104, 105],
             up_ContentType = ''text/plain'', up_ChecksumMode = ''DISABLED''\<rparr>],
    \<lparr>status = 200, body = Success ''All files processed.''\<rparr>)"
proof -
  let ?fd = "\<lparr>fields_config = Some ''{}'', fields_bucket = Some ''data'',
                fields_path = Some ''docs/'',
                files = Some [
                  \<lparr>content = Some [], filename = None, originalName = ''empty.txt'',
                   contentType = ''text/plain''\<rparr>,
                  \<lparr>content = Some [104, 105], filename = None, originalName = ''a.txt'',
                   contentType = ''text/plain''\<rparr>,
                  \<lparr>content = None, filename = Some ''/tmp/b'', originalName = ''b.txt'',
                   contentType = ''text/plain''\<rparr>,
                  \<lparr>content = None, filename = Some ''/tmp/c'', originalName = ''c.txt'',
                   contentType = ''text/plain''\<rparr>]\<rparr>"
  let ?read = "\<lambda>m::nat. (Inr ?fd :: js_error + formData)"
  let ?send = "\<lambda>(c::s3client) (h::command list) (cmd::command).
        (Inr \<lparr>Buckets = None, Contents = None, CommonPrefixes = None\<rparr> :: js_error + s3output)"
  let ?readFile = "\<lambda>fn::string. if fn = ''/tmp/b'' then (Inr [] :: js_error + bytes) else Inr [33]"
  let ?cfg = "\<lparr>region = Some ''us-east-1'', accessKeyId = Some ''AK'',
                       secretAccessKey = Some ''SK'', endpoint = None\<rparr>"
  let ?parse = "\<lambda>s::string option. (Inr (Some ?cfg) :: js_error + config option)"
  let ?pick = "\<lambda>(calls::command list) (waiting::formDataFile list). 1::nat"
  let ?race = "\<lambda>es::js_error list. 0::nat"
  have r: "?read maxFileSize = Inr ?fd" by simp
  have c: "createS3Client (Some ?cfg) = Inr (S3Client \<lparr>client_region = Some ''us-east-1'',
        client_credentials = \<lparr>cred_accessKeyId = Some ''AK'', cred_secretAccessKey = Some ''SK''\<rparr>,
        client_endpoint = None, forcePathStyle = None\<rparr>)"
    by (simp add: createS3Client_def)
  have calls: "fst (upload_handler ?send ?readFile ?parse ?pick ?race ?read) =
     [Upload \<lparr>up_Bucket = Some ''data'', up_Key = ''docs/c.txt'', up_Body = [33],
             up_ContentType = ''text/plain'', up_ChecksumMode = ''DISABLED''\<rparr>,
      Upload \<lparr>up_Bucket = Some ''data'', up_Key = ''docs/a.txt'', up_Body = [104, 105],
             up_ContentType = ''text/plain'', up_ChecksumMode = ''DISABLED''\<rparr>]"
    using c
    by (simp add: upload_handler_def upload_try_def upload_files_def upload_file_def sends_def
        resolve_def upload_command_def others_def finish_def promise_all_def Let_def)
  from upload_skips_zero_length [of ?read ?fd ?send ?readFile ?parse ?pick ?race, OF r] c
  have "snd (upload_handler ?send ?readFile ?parse ?pick ?race ?read) =
          \<lparr>status = 200, body = Success ''All files processed.''\<rparr>"
    by (simp add: resolve_def)
  with calls show ?thesis by (simp add: prod_eq_iff)
qed

text \<open>
  Whatever the reader throws is answered with status 500 and the message as it is; the
  client is not built and no file is processed.
\<close>

lemma upload_reader_rejection:
  assumes "read 104857600 = Inl e"
  shows "upload_handler send readFile json_parse pick race read =
           ([], \<lparr>status = 500, body = ErrorBody (message e)\<rparr>)"
  using assms
  by (simp add: upload_handler_def upload_try_def maxFileSize_def finish_def error_catch_def)

text \<open>
  C7 (amended). When a file of an upload request is over the maximum of 100 MiB, that
  is 104857600 bytes (one file of N, or more than one), the whole request fails with
  status 500 and the message of the reader, ``File size exceeds limit of 104857600
  bytes.'', which is the same whatever the file is called. The request is refused before
  the client is built and before any file is processed: no upload is sent.
\<close>

theorem upload_oversized_file:
  assumes "p \<in> set parts" and "part_size p > 104857600"
  shows "upload_handler send readFile json_parse pick race (form_reader overhead parts accepted) =
           ([], \<lparr>status = 500, body = ErrorBody ''File size exceeds limit of 104857600 bytes.''\<rparr>)"
proof -
  have "list_ex (\<lambda>p. part_size p + overhead > 104857600) parts"
    unfolding list_ex_iff using assms by (intro bexI [of _ p]) simp_all
  then have "form_reader overhead parts accepted 104857600 = Inl (too_large 104857600)"
    by (simp add: form_reader_def)
  then have "upload_handler send readFile json_parse pick race (form_reader overhead parts accepted) =
           ([], \<lparr>status = 500, body = ErrorBody (message (too_large 104857600))\<rparr>)"
    by (rule upload_reader_rejection)
  then show ?thesis by (simp add: too_large_100MiB)
qed

text \<open>The theorem at three files of which the second is one byte over the maximum.\<close>

theorem upload_oversized_file_witness:
  "upload_handler
     (\<lambda>c h cmd. Inr \<lparr>Buckets = None, Contents = None, CommonPrefixes = None\<rparr>)
     (\<lambda>fn. Inr [33])
     (\<lambda>s. Inr (Some \<lparr>region = Some ''us-east-1'', accessKeyId = Some ''AK'',
                       secretAccessKey = Some ''SK'', endpoint = None\<rparr>))
     (\<lambda>calls waiting. 0)
     (\<lambda>es. 0)
     (form_reader 2
        [\<lparr>part_name = ''a.txt'', part_size = 10\<rparr>,
         \<lparr>part_name = ''big.bin'', part_size = 104857601\<rparr>,
         \<lparr>part_name = ''c.txt'', part_size = 20\<rparr>]
        \<lparr>fields_config = Some ''{}'', fields_bucket = Some ''data'', fields_path = None,
         files = Some [
           \<lparr>content = None, filename = Some ''/tmp/a'', originalName = ''a.txt'',
            contentType = ''text/plain''\<rparr>,
           \<lparr>content = None, filename = Some ''/tmp/b'', originalName = ''big.bin'',
            contentType = ''application/octet-stream''\<rparr>,
           \<lparr>content = None, filename = Some ''/tmp/c'', originalName = ''c.txt'',
            contentType = ''text/plain''\<rparr>]\<rparr>) =
   ([], \<lparr>status = 500, body = ErrorBody ''File size exceeds limit of 104857600 bytes.''\<rparr>)"
  by (rule upload_oversized_file [where p = "\<lparr>part_name = ''big.bin'', part_size = 104857601\<rparr>"])
     simp_all

text \<open>
  C7 as stated has the error message name the oversized file. The only message of the
  handler that carries a file name is the one of a failed upload. For the same three
  files the response carries the reader's text, in which the name \<open>big.bin\<close> does not
  occur.
\<close>

theorem upload_oversized_message_counterexample:
  "snd (upload_handler
     (\<lambda>c h cmd. Inr \<lparr>Buckets = None, Contents = None, CommonPrefixes = None\<rparr>)
     (\<lambda>fn. Inr [33])
     (\<lambda>s. Inr (Some \<lparr>region = Some ''us-east-1'', accessKeyId = Some ''AK'',
                       secretAccessKey = Some ''SK'', endpoint = None\<rparr>))
     (\<lambda>calls waiting. 0)
     (\<lambda>es. 0)
     (form_reader 2
        [\<lparr>part_name = ''a.txt'', part_size = 10\<rparr>,
         \<lparr>part_name = ''big.bin'', part_size = 104857601\<rparr>,
         \<lparr>part_name = ''c.txt'', part_size = 20\<rparr>]
        \<lparr>fields_config = Some ''{}'', fields_bucket = Some ''data'', fields_path = None,
         files = Some [
           \<lparr>content = None, filename = Some ''/tmp/a'', originalName = ''a.txt'',
            contentType = ''text/plain''\<rparr>,
           \<lparr>content = None, filename = Some ''/tmp/b'', originalName = ''big.bin'',
            contentType = ''application/octet-stream''\<rparr>,
           \<lparr>content = None, filename = Some ''/tmp/c'', originalName = ''c.txt'',
            contentType = ''text/plain''\<rparr>]\<rparr>)) =
   \<lparr>status = 500, body = ErrorBody ''File size exceeds limit of 104857600 bytes.''\<rparr>
   \<and> \<not> sublist ''big.bin'' ''File size exceeds limit of 104857600 bytes.''"
proof
  show "snd (upload_handler
     (\<lambda>c h cmd. Inr \<lparr>Buckets = None, Contents = None, CommonPrefixes = None\<rparr>)
     (\<lambda>fn. Inr [33])
     (\<lambda>s. Inr (Some \<lparr>region = Some ''us-east-1'', accessKeyId = Some ''AK'',
                       secretAccessKey = Some ''SK'', endpoint = None\<rparr>))
     (\<lambda>calls waiting. 0)
     (\<lambda>es. 0)
     (form_reader 2
        [\<lparr>part_name = ''a.txt'', part_size = 10\<rparr>,
         \<lparr>part_name = ''big.bin'', part_size = 104857601\<rparr>,
         \<lparr>part_name = ''c.txt'', part_size = 20\<rparr>]
        \<lparr>fields_config = Some ''{}'', fields_bucket = Some ''data'', fields_path = None,
         files = Some [
           \<lparr>content = None, filename = Some ''/tmp/a'', originalName = ''a.txt'',
            contentType = ''text/plain''\<rparr>,
           \<lparr>content = None, filename = Some ''/tmp/b'', originalName = ''big.bin'',
            contentType = ''application/octet-stream''\<rparr>,
           \<lparr>content = None, filename = Some ''/tmp/c'', originalName = ''c.txt'',
            contentType = ''text/plain''\<rparr>]\<rparr>)) =
   \<lparr>status = 500, body = ErrorBody ''File size exceeds limit of 104857600 bytes.''\<rparr>"
    by (simp add: upload_handler_def upload_try_def maxFileSize_def form_reader_def too_large_def
        finish_def error_catch_def)
  show "\<not> sublist ''big.bin'' ''File size exceeds limit of 104857600 bytes.''"
    by code_simp
qed

section \<open>Failure statuses of the seven handlers\<close>

lemma error_catch_status:
  "status (snd (finish error_catch r)) = 200 \<or> status (snd (finish error_catch r)) = 500"
  by (cases r; cases "snd r") (simp_all add: finish_def ok_def error_catch_def)

lemma connect_handler_cases:
  "(\<forall>e. req = Inl e \<longrightarrow>
      connect_handler send req = ([], \<lparr>status = 400, body = ConnectFailure (message e)\<rparr>))
   \<and> (\<forall>b e. req = Inr b \<and> createS3Client (config b) = Inl e \<longrightarrow>
      connect_handler send req = ([], \<lparr>status = 400, body = ConnectFailure (message e)\<rparr>))
   \<and> (\<forall>b c e. req = Inr b \<and> createS3Client (config b) = Inr c \<and>
        send c [] ListBucketsCommand = Inl e \<longrightarrow>
      connect_handler send req =
        ([ListBucketsCommand], \<lparr>status = 400, body = ConnectFailure (message e)\<rparr>))
   \<and> (\<forall>b c out. req = Inr b \<and> createS3Client (config b) = Inr c \<and>
        send c [] ListBucketsCommand = Inr out \<longrightarrow>
      connect_handler send req =
        ([ListBucketsCommand], \<lparr>status = 200, body = Success ''Connection successful''\<rparr>))"
  by (simp add: connect_handler_def connect_try_def finish_def connect_catch_def ok_def)

lemma json_handlers_reject_bad_body:
  "list_buckets_handler send (Inl e) = ([], \<lparr>status = 500, body = ErrorBody (message e)\<rparr>)"
  "list_objects_handler send (Inl e) = ([], \<lparr>status = 500, body = ErrorBody (message e)\<rparr>)"
  "create_bucket_handler send (Inl e) = ([], \<lparr>status = 500, body = ErrorBody (message e)\<rparr>)"
  "create_folder_handler send (Inl e) = ([], \<lparr>status = 500, body = ErrorBody (message e)\<rparr>)"
  "delete_handler send (Inl e) = ([], \<lparr>status = 500, body = ErrorBody (message e)\<rparr>)"
  by (simp_all add: list_buckets_handler_def list_buckets_try_def list_objects_handler_def
      list_objects_try_def create_bucket_handler_def create_bucket_try_def
      create_folder_handler_def create_folder_try_def delete_handler_def delete_try_def
      finish_def error_catch_def)

lemma json_handlers_reject_bad_config:
  assumes "createS3Client (config b) = Inl e"
  shows "list_buckets_handler send (Inr b) = ([], \<lparr>status = 500, body = ErrorBody (message e)\<rparr>)"
    and "list_objects_handler send (Inr b) = ([], \<lparr>status = 500, body = ErrorBody (message e)\<rparr>)"
    and "create_bucket_handler send (Inr b) = ([], \<lparr>status = 500, body = ErrorBody (message e)\<rparr>)"
    and "create_folder_handler send (Inr b) = ([], \<lparr>status = 500, body = ErrorBody (message e)\<rparr>)"
    and "delete_handler send (Inr b) = ([], \<lparr>status = 500, body = ErrorBody (message e)\<rparr>)"
  using assms
  by (simp_all add: list_buckets_handler_def list_buckets_try_def list_objects_handler_def
      list_objects_try_def create_bucket_handler_def create_bucket_try_def
      create_folder_handler_def create_folder_try_def delete_handler_def delete_try_def
      finish_def error_catch_def)

text \<open>
  C8. The connect handler answers \<open>{success: true, message: 'Connection successful'}\<close>
  with status 200 when the body is read, the config is usable and the backend accepts
  \<open>ListBucketsCommand\<close>; in each of the three other cases (body unreadable, config
  rejected, backend rejects) it answers 400 with the message of that error unchanged.
  Each of the six other handlers only ever answers 200 or 500, and answers 500 with the
  error's message where /connect answers 400: on an unreadable body and on a rejected
  config.
\<close>

theorem connect_is_the_only_400:
  "(\<forall>e. req = Inl e \<longrightarrow>
      connect_handler send req = ([], \<lparr>status = 400, body = ConnectFailure (message e)\<rparr>))
   \<and> (\<forall>b e. req = Inr b \<and> createS3Client (config b) = Inl e \<longrightarrow>
      connect_handler send req = ([], \<lparr>status = 400, body = ConnectFailure (message e)\<rparr>))
   \<and> (\<forall>b c e. req = Inr b \<and> createS3Client (config b) = Inr c \<and>
        send c [] ListBucketsCommand = Inl e \<longrightarrow>
      connect_handler send req =
        ([ListBucketsCommand], \<lparr>status = 400, body = ConnectFailure (message e)\<rparr>))
   \<and> (\<forall>b c out. req = Inr b \<and> createS3Client (config b) = Inr c \<and>
        send c [] ListBucketsCommand = Inr out \<longrightarrow>
      connect_handler send req =
        ([ListBucketsCommand], \<lparr>status = 200, body = Success ''Connection successful''\<rparr>))
   \<and> (status (snd (list_buckets_handler send req)) = 200 \<or>
       status (snd (list_buckets_handler send req)) = 500)
   \<and> (status (snd (list_objects_handler send req)) = 200 \<or>
       status (snd (list_objects_handler send req)) = 500)
   \<and> (status (snd (create_bucket_handler send req)) = 200 \<or>
       status (snd (create_bucket_handler send req)) = 500)
   \<and> (status (snd (create_folder_handler send req)) = 200 \<or>
       status (snd (create_folder_handler send req)) = 500)
   \<and> (status (snd (delete_handler send req)) = 200 \<or>
       status (snd (delete_handler send req)) = 500)
   \<and> (status (snd (upload_handler send readFile json_parse pick race read)) = 200 \<or>
       status (snd (upload_handler send readFile json_parse pick race read)) = 500)
   \<and> (\<forall>b e. req = Inl e \<or> (req = Inr b \<and> createS3Client (config b) = Inl e) \<longrightarrow>
        snd (list_buckets_handler send req) = \<lparr>status = 500, body = ErrorBody (message e)\<rparr> \<and>
        snd (list_objects_handler send req) = \<lparr>status = 500, body = ErrorBody (message e)\<rparr> \<and>
        snd (create_bucket_handler send req) = \<lparr>status = 500, body = ErrorBody (message e)\<rparr> \<and>
        snd (create_folder_handler send req) = \<lparr>status = 500, body = ErrorBody (message e)\<rparr> \<and>
        snd (delete_handler send req) = \<lparr>status = 500, body = ErrorBody (message e)\<rparr>)
   \<and> (\<forall>fd cfg e. read maxFileSize = Inr fd \<and> json_parse (fields_config fd) = Inr cfg \<and>
        createS3Client cfg = Inl e \<longrightarrow>
        snd (upload_handler send readFile json_parse pick race read) =
          \<lparr>status = 500, body = ErrorBody (message e)\<rparr>)"
proof -
  have bad: "\<forall>b e. req = Inl e \<or> (req = Inr b \<and> createS3Client (config b) = Inl e) \<longrightarrow>
        snd (list_buckets_handler send req) = \<lparr>status = 500, body = ErrorBody (message e)\<rparr> \<and>
        snd (list_objects_handler send req) = \<lparr>status = 500, body = ErrorBody (message e)\<rparr> \<and>
        snd (create_bucket_handler send req) = \<lparr>status = 500, body = ErrorBody (message e)\<rparr> \<and>
        snd (create_folder_handler send req) = \<lparr>status = 500, body = ErrorBody (message e)\<rparr> \<and>
        snd (delete_handler send req) = \<lparr>status = 500, body = ErrorBody (message e)\<rparr>"
  proof (intro allI impI)
    fix b e
    assume "req = Inl e \<or> (req = Inr b \<and> createS3Client (config b) = Inl e)"
    then show "snd (list_buckets_handler send req) = \<lparr>status = 500, body = ErrorBody (message e)\<rparr> \<and>
        snd (list_objects_handler send req) = \<lparr>status = 500, body = ErrorBody (message e)\<rparr> \<and>
        snd (create_bucket_handler send req) = \<lparr>status = 500, body = ErrorBody (message e)\<rparr> \<and>
        snd (create_folder_handler send req) = \<lparr>status = 500, body = ErrorBody (message e)\<rparr> \<and>
        snd (delete_handler send req) = \<lparr>status = 500, body = ErrorBody (message e)\<rparr>"
    proof
      assume "req = Inl e"
      then show ?thesis by (simp add: json_handlers_reject_bad_body)
    next
      assume "req = Inr b \<and> createS3Client (config b) = Inl e"
      then show ?thesis by (simp add: json_handlers_reject_bad_config)
    qed
  qed
  have up: "\<forall>fd cfg e. read maxFileSize = Inr fd \<and> json_parse (fields_config fd) = Inr cfg \<and>
        createS3Client cfg = Inl e \<longrightarrow>
        snd (upload_handler send readFile json_parse pick race read) =
          \<lparr>status = 500, body = ErrorBody (message e)\<rparr>"
    by (simp add: upload_handler_def upload_try_def finish_def error_catch_def)
  show ?thesis
    using connect_handler_cases [of req send] bad up
      error_catch_status [of "list_buckets_try send req"]
      error_catch_status [of "list_objects_try send req"]
      error_catch_status [of "create_bucket_try send req"]
      error_catch_status [of "create_folder_try send req"]
      error_catch_status [of "delete_try send req"]
      error_catch_status [of "upload_try send readFile json_parse pick race read"]
    unfolding list_buckets_handler_def list_objects_handler_def create_bucket_handler_def
      create_folder_handler_def delete_handler_def upload_handler_def
    by blast
qed

text \<open>
  The theorem at a backend that refuses the credentials, for /connect, and at an
  unreadable body, for /buckets.
\<close>

theorem connect_is_the_only_400_witness:
  "connect_handler (\<lambda>c h cmd. Inl (Error ''InvalidAccessKeyId''))
     (Inr \<lparr>config = Some \<lparr>region = Some ''us-east-1'', accessKeyId = Some ''AK'',
                 secretAccessKey = Some ''SK'', endpoint = None\<rparr>,
            bucket = None, prefix' = None, bucketName = None, region' = None, key = None,
            items = []\<rparr>) =
     ([ListBucketsCommand], \<lparr>status = 400, body = ConnectFailure ''InvalidAccessKeyId''\<rparr>)
   \<and> snd (list_buckets_handler (\<lambda>c h cmd. Inl (Error ''InvalidAccessKeyId''))
       (Inl (Error ''Unexpected end of JSON input''))) =
     \<lparr>status = 500, body = ErrorBody ''Unexpected end of JSON input''\<rparr>"
proof -
  let ?b = "\<lparr>config = Some \<lparr>region = Some ''us-east-1'', accessKeyId = Some ''AK'',
                 secretAccessKey = Some ''SK'', endpoint = None\<rparr>,
            bucket = None, prefix' = None, bucketName = None, region' = None, key = None,
            items = []\<rparr>"
  let ?send = "\<lambda>(c::s3client) (h::command list) (cmd::command).
        (Inl (Error ''InvalidAccessKeyId'') :: js_error + s3output)"
  have c: "createS3Client (config ?b) = Inr (S3Client \<lparr>client_region = Some ''us-east-1'',
        client_credentials = \<lparr>cred_accessKeyId = Some ''AK'', cred_secretAccessKey = Some ''SK''\<rparr>,
        client_endpoint = None, forcePathStyle = None\<rparr>)"
    by (simp add: createS3Client_def)
  from connect_is_the_only_400 [of "Inr ?b" ?send] c
  have 1: "connect_handler ?send (Inr ?b) =
     ([ListBucketsCommand], \<lparr>status = 400, body = ConnectFailure ''InvalidAccessKeyId''\<rparr>)"
    by simp
  from connect_is_the_only_400 [of "Inl (Error ''Unexpected end of JSON input'')" ?send]
  have 2: "snd (list_buckets_handler ?send (Inl (Error ''Unexpected end of JSON input''))) =
     \<lparr>status = 500, body = ErrorBody ''Unexpected end of JSON input''\<rparr>"
    by simp
  from 1 2 show ?thesis by simp
qed

end
